theory Spec2Isabelle
  imports Main "HOL-Library.Sublist"
begin

section \<open>Python values shared by both source files\<close>

text \<open>
  The exceptions the embedded functions can end with. \<open>SystemExit n\<close> is what
  \<^verbatim>\<open>sys.exit(n)\<close> raises; nothing in the embedded code catches it, so it ends the
  process with status \<open>n\<close>. \<open>AttributeError\<close> is what a call of a method that the
  object does not have raises. The other four are those of \<^verbatim>\<open>open\<close> and \<^verbatim>\<open>read\<close>: no file at
  the path, a directory at the path, a file the process may not read, and bytes that
  are not UTF-8.
\<close>

datatype py_error =
    IndexError
  | AttributeError
  | SystemExit int
  | FileNotFoundError
  | IsADirectoryError
  | PermissionError
  | UnicodeDecodeError

text \<open>
  Python's \<^verbatim>\<open>xs[i]\<close> on a list: a negative index counts from the end, and an index
  outside the list raises \<^verbatim>\<open>IndexError\<close>.
\<close>

definition subscript :: "'a list \<Rightarrow> int \<Rightarrow> py_error + 'a" where
  "subscript xs i =
     (let k = (if i < 0 then i + int (length xs) else i)
      in if k < 0 \<or> int (length xs) \<le> k then Inl IndexError else Inr (xs ! nat k))"

text \<open>
  \<^verbatim>\<open>str.lower()\<close>. The letters \<open>A\<close> to \<open>Z\<close> (codes 65 to 90) move to \<open>a\<close> to \<open>z\<close>;
  every other character stays. (Python also lowers letters outside ASCII; none of them
  becomes an ASCII letter occurring in the words tested below.)
\<close>

definition lower_char :: "char \<Rightarrow> char" where
  "lower_char c =
     (let n = (of_char c :: nat) in if 65 \<le> n \<and> n \<le> 90 then char_of (n + 32) else c)"

definition lower :: "string \<Rightarrow> string" where
  "lower s = map lower_char s"

text \<open>
  \<^verbatim>\<open>word in content\<close> on two strings: \<open>word\<close> occurs in \<open>content\<close> as a contiguous
  run of characters, starting at some position.
\<close>

fun str_in :: "string \<Rightarrow> string \<Rightarrow> bool" where
  "str_in word [] = (word = [])"
| "str_in word (c # cs) = (prefix word (c # cs) \<or> str_in word cs)"

section \<open>The demo graph: \<^verbatim>\<open>langgraph-demo/agent.py\<close>\<close>

text \<open>
  The values a message's \<^verbatim>\<open>content\<close> attribute can hold: a \<^verbatim>\<open>str\<close>, a list (a reply of
  the chat model can be a list of content blocks), or \<^verbatim>\<open>None\<close>. Only a \<^verbatim>\<open>str\<close> has the
  method \<^verbatim>\<open>lower\<close>; calling it on a list or on \<^verbatim>\<open>None\<close> raises \<^verbatim>\<open>AttributeError\<close>.
\<close>

datatype py_value = PyStr string | PyList "py_value list" | PyNone

fun call_lower :: "py_value \<Rightarrow> py_error + string" where
  "call_lower (PyStr s) = Inr (lower s)"
| "call_lower (PyList vs) = Inl AttributeError"
| "call_lower PyNone = Inl AttributeError"

text \<open>
  A message of the conversation, as far as \<^verbatim>\<open>should_continue\<close> looks at it: whether it
  has a \<^verbatim>\<open>content\<close> attribute (\<open>None\<close> when \<^verbatim>\<open>hasattr(m, "content")\<close> is false, as for
  a plain dict), and the value held there. \<^verbatim>\<open>AgentState\<close> is a dict with the one key
  \<^verbatim>\<open>messages\<close>, a list.
\<close>

record message =
  content :: "py_value option"

record AgentState =
  messages :: "message list"

text \<open>
  \<^verbatim>\<open>
  def should_continue(state: AgentState) -> str:
      last_message = state["messages"][-1]
      if hasattr(last_message, "content"):
          content = last_message.content.lower()
          if any(word in content for word in ["goodbye", "bye", "farewell"]):
              return "end"
      return "continue"
  \<close>
\<close>

definition should_continue :: "AgentState \<Rightarrow> py_error + string" where
  "should_continue state =
     (case subscript (messages state) (- 1) of
        Inl e \<Rightarrow> Inl e
      | Inr last_message \<Rightarrow>
          (case content last_message of
             Some v \<Rightarrow>
               (case call_lower v of
                  Inl e \<Rightarrow> Inl e
                | Inr content' \<Rightarrow>
                    if list_ex (\<lambda>word. str_in word content') [''goodbye'', ''bye'', ''farewell'']
                    then Inr ''end''
                    else Inr ''continue'')
           | None \<Rightarrow> Inr ''continue''))"

text \<open>
  What a module object carries: the names bound at its top level, each with the kind of
  thing bound to it.
\<close>

datatype binding = ImportedName | ClassDef | FunctionDef | ChatModel | GraphBuilder | CompiledGraph

text \<open>
  The module that executing \<^verbatim>\<open>agent.py\<close> leaves, when it is loaded under a name other than
  \<^verbatim>\<open>__main__\<close>: the six imported names (lines 3 to 6), the class \<^verbatim>\<open>AgentState\<close>,
  \<^verbatim>\<open>llm = ChatAnthropic(...)\<close>, the functions \<^verbatim>\<open>agent_node\<close> and \<^verbatim>\<open>should_continue\<close>,
  \<^verbatim>\<open>builder = StateGraph(AgentState)\<close> and, last, \<^verbatim>\<open>graph = builder.compile()\<close>
  (line 55). The block under \<^verbatim>\<open>if __name__ == "__main__"\<close> does not run.
\<close>

definition agent_module :: "(string \<times> binding) list" where
  "agent_module =
     [(''Annotated'', ImportedName), (''TypedDict'', ImportedName),
      (''StateGraph'', ImportedName), (''END'', ImportedName),
      (''add_messages'', ImportedName), (''ChatAnthropic'', ImportedName),
      (''AgentState'', ClassDef),
      (''llm'', ChatModel),
      (''agent_node'', FunctionDef),
      (''should_continue'', FunctionDef),
      (''builder'', GraphBuilder),
      (''graph'', CompiledGraph)]"

section \<open>The publishing script: \<^verbatim>\<open>plugins/jira-orchestrator/scripts/publish-to-confluence.py\<close>\<close>














section \<open>The registry's module loader\<close>

text \<open>
  The registry module is not among the source files; its loader is written here from
  sections 3, 4.2, 4.4 and 7 of the specification.
\<close>

text \<open>
  Modelled from the spec: the health status of section 3, one of \<^verbatim>\<open>unknown\<close>, \<^verbatim>\<open>healthy\<close>,
  \<^verbatim>\<open>unhealthy\<close>. The registry's own type is missing.
\<close>

datatype health = unknown | healthy | unhealthy

text \<open>
  Modelled from the spec: the AgentMetadata record of section 3, field by field (the
  registry's own record type is missing). The module and configuration paths are
  optional, since a load can find no module reference set; \<^verbatim>\<open>lastInvoked\<close> is null until
  the agent has run.
\<close>

record AgentMetadata =
  agent_id :: string
  name :: string
  description :: string
  version :: string
  agentType :: string
  capabilities :: "string list"
  tools :: "string list"
  tags :: "string list"
  dependencies :: "string list"
  modulePath :: "string option"
  configPath :: "string option"
  createdAt :: string
  updatedAt :: string
  lastInvoked :: "string option"
  enabled :: bool
  healthStatus :: health
  invocationCount :: nat
  defaultConfig :: "(string \<times> string) list"

text \<open>
  Modelled from the spec: the LoadedModuleHandle of section 3, the module object a load
  produces (the loader's own handle is missing). What validation asks of it is which
  names it exposes.
\<close>

type_synonym LoadedModuleHandle = "(string \<times> binding) list"

text \<open>
  Modelled from the spec: what loading the file at a path does, since the loader's call
  into Python's import machinery is missing. A path with no file maps to \<open>None\<close>; a
  file either executes to a module or raises while it is executed.
\<close>

datatype load_outcome = Loads LoadedModuleHandle | Raises string

type_synonym module_files = "string \<Rightarrow> load_outcome option"

text \<open>
  Modelled from the spec: the error kinds that section 4.2 gives for a load (the
  registry's own errors are missing).
\<close>

datatype error = NotFound | LoadError | LoadFailure

text \<open>
  Modelled from the spec: the registry's state (its class is missing): the in-memory
  map from id to metadata, the loader's cache of handles by id, and the content of the
  store file.
\<close>

record Registry =
  agents :: "string \<Rightarrow> AgentMetadata option"
  loaded :: "string \<Rightarrow> LoadedModuleHandle option"
  store :: "string \<Rightarrow> AgentMetadata option"

text \<open>
  Modelled from the spec: saving the store (the registry's save routine is missing).
  Section 4.1: the entire map is written over the store file.
\<close>

definition persist :: "Registry \<Rightarrow> Registry" where
  "persist r = r\<lparr>store := agents r\<rparr>"

text \<open>
  Modelled from the spec: a health transition (the loader's own update is missing).
  Section 4.2: every successful or failed load updates \<^verbatim>\<open>healthStatus\<close> and persists the
  store. No other field changes.
\<close>

definition set_health :: "string \<Rightarrow> health \<Rightarrow> Registry \<Rightarrow> Registry" where
  "set_health i h r =
     persist (case agents r i of
                None \<Rightarrow> r
              | Some m \<Rightarrow> r\<lparr>agents := (agents r)(i \<mapsto> m\<lparr>healthStatus := h\<rparr>)\<rparr>)"

text \<open>
  Modelled from the spec: \<^verbatim>\<open>load(id, forceReload=false)\<close> of section 4.2 (the function
  itself is missing). A cached handle is returned as it is unless a reload is forced.
  Otherwise an unknown id and an unset module reference fail with \<^verbatim>\<open>NotFound\<close>; a
  missing file fails with \<^verbatim>\<open>LoadError\<close> and, by section 4.4, makes the agent unhealthy;
  an exception while loading makes it unhealthy and is reported as a failure; a module
  that loads replaces the cached handle and makes the agent healthy.
\<close>

definition load ::
  "module_files \<Rightarrow> string \<Rightarrow> bool \<Rightarrow> Registry \<Rightarrow> (error + LoadedModuleHandle) \<times> Registry" where
  "load fs i forceReload r =
     (case (if forceReload then None else loaded r i) of
        Some h \<Rightarrow> (Inr h, r)
      | None \<Rightarrow>
          (case agents r i of
             None \<Rightarrow> (Inl NotFound, r)
           | Some m \<Rightarrow>
               (case modulePath m of
                  None \<Rightarrow> (Inl NotFound, r)
                | Some p \<Rightarrow>
                    (case fs p of
                       None \<Rightarrow> (Inl LoadError, set_health i unhealthy r)
                     | Some (Raises e) \<Rightarrow> (Inl LoadFailure, set_health i unhealthy r)
                     | Some (Loads h) \<Rightarrow>
                         (Inr h, set_health i healthy (r\<lparr>loaded := (loaded r)(i \<mapsto> h)\<rparr>))))))"




text \<open>
  Modelled from the spec: the health status the registry holds for an id, \<open>None\<close> for an
  id that is not registered.
\<close>

definition health_of :: "Registry \<Rightarrow> string \<Rightarrow> health option" where
  "health_of r i = map_option healthStatus (agents r i)"

text \<open>
  An agent and a registry holding it, to run the loader on: the demo graph registered
  as \<^verbatim>\<open>echo\<close>, not yet loaded, with the store file in step with memory.
\<close>

definition echo :: AgentMetadata where
  "echo =
     \<lparr>agent_id = ''echo'', name = ''Echo'', description = ''Demo graph'', version = ''1.0.0'',
      agentType = ''general'', capabilities = [], tools = [], tags = [], dependencies = [],
      modulePath = Some ''/agents/echo/agent.py'', configPath = None,
      createdAt = ''2025-01-01T00:00:00+00:00'', updatedAt = ''2025-01-01T00:00:00+00:00'',
      lastInvoked = None, enabled = True, healthStatus = unknown, invocationCount = 0,
      defaultConfig = []\<rparr>"

definition echo_registry :: Registry where
  "echo_registry = \<lparr>agents = [''echo'' \<mapsto> echo], loaded = Map.empty, store = [''echo'' \<mapsto> echo]\<rparr>"

section \<open>Facts about the string operations\<close>

lemma str_in_iff: "str_in word s \<longleftrightarrow> (\<exists>p t. s = p @ word @ t)"
proof (induction s)
  case Nil
  then show ?case by auto
next
  case (Cons c cs)
  show ?case
  proof
    assume "str_in word (c # cs)"
    then consider "prefix word (c # cs)" | "str_in word cs" by auto
    then show "\<exists>p t. c # cs = p @ word @ t"
    proof cases
      case 1
      then obtain t where "c # cs = word @ t" by (auto simp: prefix_def)
      then have "c # cs = [] @ word @ t" by simp
      then show ?thesis by blast
    next
      case 2
      with Cons.IH obtain p t where "cs = p @ word @ t" by blast
      then have "c # cs = (c # p) @ word @ t" by simp
      then show ?thesis by blast
    qed
  next
    assume "\<exists>p t. c # cs = p @ word @ t"
    then obtain p t where e: "c # cs = p @ word @ t" by blast
    show "str_in word (c # cs)"
    proof (cases p)
      case Nil
      with e have "prefix word (c # cs)" by (simp add: prefix_def)
      then show ?thesis by simp
    next
      case (Cons a p')
      with e have "cs = p' @ word @ t" by simp
      with Cons.IH have "str_in word cs" by blast
      then show ?thesis by simp
    qed
  qed
qed

lemma bye_in_goodbye: "str_in ''goodbye'' s \<Longrightarrow> str_in ''bye'' s"
proof -
  assume "str_in ''goodbye'' s"
  then obtain p t where "s = p @ ''goodbye'' @ t" by (auto simp: str_in_iff)
  then have "s = (p @ ''good'') @ ''bye'' @ t" by simp
  then show ?thesis unfolding str_in_iff by blast
qed

lemma subscript_last: "subscript xs (- 1) = (if xs = [] then Inl IndexError else Inr (last xs))"
  by (cases xs rule: rev_cases) (simp_all add: subscript_def)

section \<open>Results for \<^verbatim>\<open>should_continue\<close>\<close>

text \<open>The outcomes of \<^verbatim>\<open>should_continue\<close>, read off its definition.\<close>

lemma should_continue_cases:
  "should_continue st =
     (if messages st = [] then Inl IndexError
      else case content (last (messages st)) of
             None \<Rightarrow> Inr ''continue''
           | Some (PyStr text) \<Rightarrow>
               if str_in ''goodbye'' (lower text) \<or> str_in ''bye'' (lower text)
                    \<or> str_in ''farewell'' (lower text)
               then Inr ''end'' else Inr ''continue''
           | Some (PyList vs) \<Rightarrow> Inl AttributeError
           | Some PyNone \<Rightarrow> Inl AttributeError)"
  by (simp add: should_continue_def subscript_last split: option.split py_value.split)

text \<open>
  Claim C8, as amended. When the list of messages is not empty and its last message has
  a \<^verbatim>\<open>content\<close> attribute, a \<^verbatim>\<open>str\<close>, \<^verbatim>\<open>should_continue\<close> returns \<^verbatim>\<open>"end"\<close> exactly when
  the lowercased content contains \<^verbatim>\<open>"goodbye"\<close>, \<^verbatim>\<open>"bye"\<close> or \<^verbatim>\<open>"farewell"\<close>; that is
  the same as containing \<^verbatim>\<open>"bye"\<close> or \<^verbatim>\<open>"farewell"\<close>, since \<^verbatim>\<open>"bye"\<close> occurs in
  \<^verbatim>\<open>"goodbye"\<close>, so that a content such as \<^verbatim>\<open>"Byelaw"\<close> ends the loop too. Otherwise
  it returns \<^verbatim>\<open>"continue"\<close>, as it does when the last message has no \<^verbatim>\<open>content\<close>
  attribute. It returns no string other than these two, whatever the state is.
\<close>

theorem should_continue_end_iff:
  "(messages st \<noteq> [] \<and> content (last (messages st)) = Some (PyStr text) \<longrightarrow>
      (should_continue st = Inr ''end'' \<longleftrightarrow>
         str_in ''goodbye'' (lower text) \<or> str_in ''bye'' (lower text)
           \<or> str_in ''farewell'' (lower text))
    \<and> (should_continue st = Inr ''end'' \<longleftrightarrow>
         str_in ''bye'' (lower text) \<or> str_in ''farewell'' (lower text))
    \<and> (should_continue st \<noteq> Inr ''end'' \<longrightarrow> should_continue st = Inr ''continue''))
   \<and> (messages st \<noteq> [] \<and> content (last (messages st)) = None \<longrightarrow>
        should_continue st = Inr ''continue'')
   \<and> (\<forall>r. should_continue st = Inr r \<longrightarrow> r = ''continue'' \<or> r = ''end'')
   \<and> should_continue \<lparr>messages = [\<lparr>content = Some (PyStr ''Byelaw'')\<rparr>]\<rparr> = Inr ''end''"
proof (intro conjI impI allI)
  show "should_continue \<lparr>messages = [\<lparr>content = Some (PyStr ''Byelaw'')\<rparr>]\<rparr> = Inr ''end''"
    by code_simp
next
  fix r assume "should_continue st = Inr r"
  then show "r = ''continue'' \<or> r = ''end''"
    by (auto simp: should_continue_cases split: if_splits option.splits py_value.splits)
next
  assume "messages st \<noteq> [] \<and> content (last (messages st)) = None"
  then show "should_continue st = Inr ''continue''"
    by (simp add: should_continue_cases)
next
  assume h: "messages st \<noteq> [] \<and> content (last (messages st)) = Some (PyStr text)"
  then show "should_continue st = Inr ''end'' \<longleftrightarrow>
         str_in ''goodbye'' (lower text) \<or> str_in ''bye'' (lower text)
           \<or> str_in ''farewell'' (lower text)"
    by (simp add: should_continue_cases)
  from h show "should_continue st = Inr ''end'' \<longleftrightarrow>
         str_in ''bye'' (lower text) \<or> str_in ''farewell'' (lower text)"
    using bye_in_goodbye [of "lower text"] by (auto simp: should_continue_cases)
  assume "should_continue st \<noteq> Inr ''end''"
  with h show "should_continue st = Inr ''continue''"
    by (simp add: should_continue_cases split: if_splits)
qed

text \<open>
  The theorem at three conversations: a last message saying goodbye in mixed case, a
  last message with none of the words (the word in an earlier message does not count),
  and a last message with no \<^verbatim>\<open>content\<close> attribute.
\<close>

theorem should_continue_end_iff_witness:
  "should_continue
     \<lparr>messages = [\<lparr>content = Some (PyStr ''hi'')\<rparr>, \<lparr>content = Some (PyStr ''Well, GoodBye!'')\<rparr>]\<rparr>
     = Inr ''end''
   \<and> should_continue
     \<lparr>messages = [\<lparr>content = Some (PyStr ''bye'')\<rparr>, \<lparr>content = Some (PyStr ''Hello there'')\<rparr>]\<rparr>
     = Inr ''continue''
   \<and> should_continue \<lparr>messages = [\<lparr>content = None\<rparr>]\<rparr> = Inr ''continue''"
proof -
  let ?a = "\<lparr>messages =
    [\<lparr>content = Some (PyStr ''hi'')\<rparr>, \<lparr>content = Some (PyStr ''Well, GoodBye!'')\<rparr>]\<rparr>"
  let ?b = "\<lparr>messages =
    [\<lparr>content = Some (PyStr ''bye'')\<rparr>, \<lparr>content = Some (PyStr ''Hello there'')\<rparr>]\<rparr>"
  let ?c = "\<lparr>messages = [\<lparr>content = None\<rparr>]\<rparr>"
  have la: "lower ''Well, GoodBye!'' = ''well, goodbye!''" by code_simp
  have lb: "lower ''Hello there'' = ''hello there''" by code_simp
  have a: "should_continue ?a = Inr ''end''"
    using should_continue_end_iff [of ?a "''Well, GoodBye!''"] by (simp add: la)
  have b: "should_continue ?b = Inr ''continue''"
    using should_continue_end_iff [of ?b "''Hello there''"] by (simp add: lb)
  have c: "should_continue ?c = Inr ''continue''"
    using should_continue_end_iff [of ?c] by simp
  from a b c show ?thesis by simp
qed

text \<open>
  Claim C8 as written names \<^verbatim>\<open>"maybe"\<close> as a content that ends the loop. It does not:
  \<^verbatim>\<open>"maybe"\<close> holds \<^verbatim>\<open>"ybe"\<close>, not \<^verbatim>\<open>"bye"\<close>, and the function returns \<^verbatim>\<open>"continue"\<close>.
\<close>

theorem should_continue_maybe_counterexample:
  "should_continue \<lparr>messages = [\<lparr>content = Some (PyStr ''maybe'')\<rparr>]\<rparr> = Inr ''continue''
   \<and> \<not> str_in ''bye'' (lower ''maybe'')"
  by code_simp

text \<open>
  Claim C9 as written says that \<^verbatim>\<open>should_continue\<close> is total on every state whose list of
  messages is not empty. It is not: when the last message's content is a list, or
  \<^verbatim>\<open>None\<close>, the call \<^verbatim>\<open>last_message.content.lower()\<close> raises \<^verbatim>\<open>AttributeError\<close> and the
  function returns nothing, although the list is not empty.
\<close>

theorem should_continue_not_total_counterexample:
  "messages \<lparr>messages = [\<lparr>content = Some (PyList [PyStr ''Goodbye''])\<rparr>]\<rparr> \<noteq> []
   \<and> should_continue \<lparr>messages = [\<lparr>content = Some (PyList [PyStr ''Goodbye''])\<rparr>]\<rparr>
       = Inl AttributeError
   \<and> should_continue \<lparr>messages = [\<lparr>content = Some PyNone\<rparr>]\<rparr> = Inl AttributeError"
  by (simp add: should_continue_def subscript_def)

text \<open>
  Claim C9, as amended. \<^verbatim>\<open>should_continue\<close> reads \<^verbatim>\<open>state["messages"][-1]\<close>. On a list that
  is not empty the index yields the last element and its out-of-range branch is not
  taken; on the empty list the index raises \<^verbatim>\<open>IndexError\<close> and the function returns
  nothing. The index fails on the empty list only. The function returns a value on
  every state whose list is not empty and whose last message has no \<^verbatim>\<open>content\<close>
  attribute or has a \<^verbatim>\<open>str\<close> for content.
\<close>

theorem should_continue_index_safe:
  "(messages st \<noteq> [] \<longrightarrow>
      subscript (messages st) (- 1) = Inr (last (messages st))
      \<and> should_continue st \<noteq> Inl IndexError)
   \<and> (messages st \<noteq> []
        \<and> (content (last (messages st)) = None
             \<or> (\<exists>text. content (last (messages st)) = Some (PyStr text))) \<longrightarrow>
      (\<exists>r. should_continue st = Inr r))
   \<and> (messages st = [] \<longrightarrow>
      subscript (messages st) (- 1) = Inl IndexError
      \<and> should_continue st = Inl IndexError)
   \<and> (should_continue st = Inl IndexError \<longleftrightarrow> messages st = [])"
  by (auto simp: should_continue_cases subscript_last split: option.splits py_value.splits)

text \<open>
  The theorem at a one-message conversation with a text, at one whose message has no
  \<^verbatim>\<open>content\<close> attribute, and at the empty conversation.
\<close>

theorem should_continue_index_safe_witness:
  "subscript [\<lparr>content = Some (PyStr ''hello'')\<rparr>] (- 1) = Inr \<lparr>content = Some (PyStr ''hello'')\<rparr>
   \<and> (\<exists>r. should_continue \<lparr>messages = [\<lparr>content = Some (PyStr ''hello'')\<rparr>]\<rparr> = Inr r)
   \<and> (\<exists>r. should_continue \<lparr>messages = [\<lparr>content = None\<rparr>]\<rparr> = Inr r)
   \<and> should_continue \<lparr>messages = []\<rparr> = Inl IndexError"
  using should_continue_index_safe [of "\<lparr>messages = [\<lparr>content = Some (PyStr ''hello'')\<rparr>]\<rparr>"]
    should_continue_index_safe [of "\<lparr>messages = [\<lparr>content = None\<rparr>]\<rparr>"]
    should_continue_index_safe [of "\<lparr>messages = []\<rparr>"]
  by simp

section \<open>Results for \<^verbatim>\<open>read_documentation\<close>\<close>





section \<open>Results for the module loader\<close>

lemma health_of_set_health:
  "agents r i \<noteq> None \<Longrightarrow> health_of (set_health i h r) i = Some h"
  by (auto simp: health_of_def set_health_def persist_def)







text \<open>
  Claim C5. With a cached handle and no forced reload, \<^verbatim>\<open>load\<close> returns the cached handle
  and leaves the registry, store file included, as it was, whatever the files are: it
  reads none. Without a usable cache entry it fails with \<^verbatim>\<open>NotFound\<close> for an unknown id
  and for an agent with no module reference, and with \<^verbatim>\<open>LoadError\<close> when the file does
  not exist. When the file loads, the result is the fresh handle, the cache holds it in
  place of any earlier one, and the agent is healthy. When loading raises, the result
  is the failure value \<^verbatim>\<open>LoadFailure\<close> and the agent is unhealthy.
\<close>

theorem load_cache_errors_and_health:
  "(loaded r i = Some h \<longrightarrow>
      load fs i False r = (Inr h, r) \<and> (\<forall>fs'. load fs' i False r = load fs i False r))
   \<and> (forceReload \<or> loaded r i = None \<longrightarrow>
      (agents r i = None \<longrightarrow> fst (load fs i forceReload r) = Inl NotFound)
      \<and> (\<forall>m. agents r i = Some m \<and> modulePath m = None \<longrightarrow>
            fst (load fs i forceReload r) = Inl NotFound)
      \<and> (\<forall>m p. agents r i = Some m \<and> modulePath m = Some p \<and> fs p = None \<longrightarrow>
            fst (load fs i forceReload r) = Inl LoadError)
      \<and> (\<forall>m p h'. agents r i = Some m \<and> modulePath m = Some p \<and> fs p = Some (Loads h') \<longrightarrow>
            fst (load fs i forceReload r) = Inr h'
            \<and> loaded (snd (load fs i forceReload r)) i = Some h'
            \<and> health_of (snd (load fs i forceReload r)) i = Some healthy)
      \<and> (\<forall>m p e. agents r i = Some m \<and> modulePath m = Some p \<and> fs p = Some (Raises e) \<longrightarrow>
            fst (load fs i forceReload r) = Inl LoadFailure
            \<and> health_of (snd (load fs i forceReload r)) i = Some unhealthy))"
proof -
  have cached: "load fs' i False r = (Inr h, r)" if "loaded r i = Some h" for fs'
    using that by (simp add: load_def)
  have fresh: "load fs i forceReload r =
      (case agents r i of
         None \<Rightarrow> (Inl NotFound, r)
       | Some m \<Rightarrow>
           (case modulePath m of
              None \<Rightarrow> (Inl NotFound, r)
            | Some p \<Rightarrow>
                (case fs p of
                   None \<Rightarrow> (Inl LoadError, set_health i unhealthy r)
                 | Some (Raises e) \<Rightarrow> (Inl LoadFailure, set_health i unhealthy r)
                 | Some (Loads h) \<Rightarrow>
                     (Inr h, set_health i healthy (r\<lparr>loaded := (loaded r)(i \<mapsto> h)\<rparr>)))))"
    if "forceReload \<or> loaded r i = None"
    using that by (auto simp: load_def)
  have kept: "loaded (set_health i s q) = loaded q" for s q
    by (simp add: set_health_def persist_def split: option.split)
  show ?thesis
  proof (intro conjI impI allI)
    assume "loaded r i = Some h"
    then show "load fs i False r = (Inr h, r)" by (rule cached)
  next
    fix fs' assume "loaded r i = Some h"
    then show "load fs' i False r = load fs i False r" by (simp add: cached)
  qed (auto simp: fresh kept health_of_set_health)
qed

text \<open>
  The theorem on the example registry, one load for each case: a cached handle, an
  unknown id, an agent without a module reference, a missing file, a forced reload over
  a stale cache entry, and a module that raises.
\<close>

theorem load_cache_errors_and_health_witness:
  "load Map.empty ''echo'' False (echo_registry\<lparr>loaded := [''echo'' \<mapsto> agent_module]\<rparr>)
     = (Inr agent_module, echo_registry\<lparr>loaded := [''echo'' \<mapsto> agent_module]\<rparr>)
   \<and> fst (load Map.empty ''ghost'' False echo_registry) = Inl NotFound
   \<and> fst (load Map.empty ''echo'' False
        (echo_registry\<lparr>agents := [''echo'' \<mapsto> echo\<lparr>modulePath := None\<rparr>]\<rparr>)) = Inl NotFound
   \<and> fst (load Map.empty ''echo'' False echo_registry) = Inl LoadError
   \<and> fst (load [''/agents/echo/agent.py'' \<mapsto> Loads agent_module] ''echo'' True
        (echo_registry\<lparr>loaded := [''echo'' \<mapsto> []]\<rparr>)) = Inr agent_module
   \<and> loaded (snd (load [''/agents/echo/agent.py'' \<mapsto> Loads agent_module] ''echo'' True
        (echo_registry\<lparr>loaded := [''echo'' \<mapsto> []]\<rparr>))) ''echo'' = Some agent_module
   \<and> health_of (snd (load [''/agents/echo/agent.py'' \<mapsto> Loads agent_module] ''echo'' True
        (echo_registry\<lparr>loaded := [''echo'' \<mapsto> []]\<rparr>))) ''echo'' = Some healthy
   \<and> fst (load [''/agents/echo/agent.py'' \<mapsto> Raises ''ImportError''] ''echo'' False echo_registry)
        = Inl LoadFailure
   \<and> health_of (snd (load [''/agents/echo/agent.py'' \<mapsto> Raises ''ImportError''] ''echo'' False
        echo_registry)) ''echo'' = Some unhealthy"
proof -
  let ?cached = "echo_registry\<lparr>loaded := [''echo'' \<mapsto> agent_module]\<rparr>"
  let ?noref = "echo_registry\<lparr>agents := [''echo'' \<mapsto> echo\<lparr>modulePath := None\<rparr>]\<rparr>"
  let ?stale = "echo_registry\<lparr>loaded := [''echo'' \<mapsto> []]\<rparr>"
  let ?ok = "[''/agents/echo/agent.py'' \<mapsto> Loads agent_module]"
  let ?bad = "[''/agents/echo/agent.py'' \<mapsto> Raises ''ImportError'']"
  have p: "modulePath echo = Some ''/agents/echo/agent.py''"
    by (simp add: echo_def)
  have c1: "load Map.empty ''echo'' False ?cached = (Inr agent_module, ?cached)"
    using load_cache_errors_and_health [of ?cached "''echo''" agent_module Map.empty False]
    by simp
  have c2: "fst (load Map.empty ''ghost'' False echo_registry) = Inl NotFound"
    using load_cache_errors_and_health [of echo_registry "''ghost''" _ Map.empty False]
    by (simp add: echo_registry_def)
  have c3: "fst (load Map.empty ''echo'' False ?noref) = Inl NotFound"
    using load_cache_errors_and_health [of ?noref "''echo''" _ Map.empty False]
    by (simp add: echo_registry_def)
  have c4: "fst (load Map.empty ''echo'' False echo_registry) = Inl LoadError"
    using load_cache_errors_and_health [of echo_registry "''echo''" _ Map.empty False] p
    by (simp add: echo_registry_def)
  have c5: "fst (load ?ok ''echo'' True ?stale) = Inr agent_module
      \<and> loaded (snd (load ?ok ''echo'' True ?stale)) ''echo'' = Some agent_module
      \<and> health_of (snd (load ?ok ''echo'' True ?stale)) ''echo'' = Some healthy"
    using load_cache_errors_and_health [of ?stale "''echo''" _ ?ok True] p
    by (simp add: echo_registry_def)
  have c6: "fst (load ?bad ''echo'' False echo_registry) = Inl LoadFailure
      \<and> health_of (snd (load ?bad ''echo'' False echo_registry)) ''echo'' = Some unhealthy"
    using load_cache_errors_and_health [of echo_registry "''echo''" _ ?bad False] p
    by (simp add: echo_registry_def)
  from c1 c2 c3 c4 c5 c6 show ?thesis by simp
qed

end
